theory Spec2Isabelle
  imports Main
begin

section \<open>Time values\<close>

text \<open>
  Python's \<open>datetime\<close>, \<open>date\<close>, \<open>time\<close> and \<open>timedelta\<close> values have microsecond
  resolution. A \<open>datetime\<close> is modelled as the number of microseconds counted from
  midnight of proleptic ordinal day 0, so that \<open>t div usec_per_day\<close> is the value of
  \<open>t.date().toordinal()\<close> and \<open>t mod usec_per_day\<close> is \<open>t.time()\<close> in microseconds
  after midnight. A \<open>date\<close> is its ordinal, a \<open>time\<close> the microseconds after midnight
  (between \<open>0\<close> and \<open>usec_per_day - 1\<close>). The calendar bound of Python (year 9999, where
  adding a \<open>timedelta\<close> raises \<open>OverflowError\<close>) is not modelled: datetimes are
  unbounded integers.
\<close>

type_synonym datetime = int
type_synonym date = int
type_synonym time = int

definition usec_per_minute :: int where
  "usec_per_minute = 60000000"

definition usec_per_hour :: int where
  "usec_per_hour = 3600000000"

definition usec_per_day :: int where
  "usec_per_day = 86400000000"

definition date_of :: "datetime \<Rightarrow> date" where
  "date_of t = t div usec_per_day"

definition time_of :: "datetime \<Rightarrow> time" where
  "time_of t = t mod usec_per_day"

definition combine :: "date \<Rightarrow> time \<Rightarrow> datetime" where
  "combine d t = d * usec_per_day + t"

definition time_min :: time where
  "time_min = 0"

definition time_max :: time where
  "time_max = usec_per_day - 1"

text \<open>\<open>date.weekday()\<close>: Monday is 0; ordinal day 1 (0001-01-01) is a Monday.\<close>

definition weekday :: "date \<Rightarrow> int" where
  "weekday d = (d + 6) mod 7"

text \<open>\<open>strftime("%H:%M")\<close> on a \<open>time\<close>: two zero-padded decimal fields.\<close>

definition two_digits :: "int \<Rightarrow> string" where
  "two_digits n = [''0123456789'' ! nat (n div 10), ''0123456789'' ! nat (n mod 10)]"

definition strftime_HM :: "time \<Rightarrow> string" where
  "strftime_HM t =
     two_digits (t div usec_per_hour) @ '':'' @
     two_digits ((t mod usec_per_hour) div usec_per_minute)"

section \<open>Tables\<close>

datatype AppointmentStatus = SCHEDULED | CONFIRMED | IN_PROGRESS | COMPLETED | CANCELLED

text \<open>
  The rows of the four tables the scheduling code reads and writes. Columns the code
  under study never reads (e-mail, password hash, notes, timestamps) are left out.
  The QR code column holds a base64 PNG rendering of the verification data; the
  model stores the verification data itself.
\<close>

record user =
  user_id :: int
  user_full_name :: string
  user_is_doctor :: bool

record working_hours =
  wh_id :: int
  wh_doctor_id :: int
  wh_day_of_week :: int
  wh_start_time :: time
  wh_end_time :: time
  wh_has_break :: bool
  wh_break_start :: "time option"
  wh_break_end :: "time option"
  wh_is_available :: bool

record verification_data =
  vd_appointment_id :: int
  vd_patient_id :: int
  vd_patient_name :: string
  vd_appointment_time :: datetime
  vd_status :: AppointmentStatus

record appointment =
  appt_id :: int
  appt_doctor_id :: int
  appt_patient_id :: int
  appt_start_time :: datetime
  appt_end_time :: datetime
  appt_status :: AppointmentStatus
  appt_qr_code :: "verification_data option"

text \<open>
  The message of a notification is an f-string built from the doctor's name and the
  formatted start time; the model keeps the two interpolated values and which of the
  two sentences is used.
\<close>

datatype message = Is_scheduled_for string datetime | Has_been_confirmed_for string datetime

record notification =
  ntf_id :: int
  ntf_user_id :: int
  ntf_title :: string
  ntf_message :: message
  ntf_type :: string
  ntf_appointment_id :: "int option"

record db =
  users :: "user list"
  working_hours_rows :: "working_hours list"
  appointments :: "appointment list"
  notifications :: "notification list"

text \<open>
  Exceptions are values. \<open>HTTPException\<close> carries the status code and the detail.
\<close>

datatype error = HTTPException int string | TypeError | AttributeError | UnboundLocalError

text \<open>The integer primary key given to a new row: one more than the largest in use.\<close>

definition next_id :: "int list \<Rightarrow> int" where
  "next_id ids = fold max ids 0 + 1"

section \<open>The booking-time conflict check\<close>

text \<open>
  The filter of the first query of \<open>is_time_slot_available\<close>. In the source every
  comparison is parenthesised and \<open>&\<close> binds tighter than \<open>|\<close>.
\<close>

definition overlap_filter :: "int \<Rightarrow> datetime \<Rightarrow> datetime \<Rightarrow> appointment \<Rightarrow> bool" where
  "overlap_filter doctor_id start_time end_time a \<longleftrightarrow>
     appt_doctor_id a = doctor_id \<and>
     appt_status a \<noteq> CANCELLED \<and>
     ((appt_start_time a \<le> start_time \<and> appt_end_time a > start_time) \<or>
      (appt_start_time a < end_time \<and> appt_end_time a \<ge> end_time) \<or>
      (appt_start_time a \<ge> start_time \<and> appt_end_time a \<le> end_time))"

text \<open>
  The working-hours query shared by both paths: the first row of the doctor for the
  weekday with \<open>is_available\<close> set (rows are taken in table order).
\<close>

definition working_hours_query :: "db \<Rightarrow> int \<Rightarrow> int \<Rightarrow> working_hours option" where
  "working_hours_query d doctor_id day_of_week =
     find (\<lambda>w. wh_doctor_id w = doctor_id \<and> wh_day_of_week w = day_of_week \<and>
                wh_is_available w)
          (working_hours_rows d)"

text \<open>
  The chained comparison \<open>lo <= t <= hi\<close> on nullable bounds: comparing a \<open>time\<close>
  with \<open>None\<close> raises \<open>TypeError\<close>; the second comparison runs only when the first
  is true.
\<close>

definition chained_le :: "time option \<Rightarrow> time \<Rightarrow> time option \<Rightarrow> error + bool" where
  "chained_le lo t hi =
     (case lo of
        None \<Rightarrow> Inl TypeError
      | Some l \<Rightarrow>
          if l \<le> t then (case hi of None \<Rightarrow> Inl TypeError | Some h \<Rightarrow> Inr (t \<le> h))
          else Inr False)"

definition in_break :: "working_hours \<Rightarrow> time \<Rightarrow> time \<Rightarrow> error + bool" where
  "in_break w appointment_start_time appointment_end_time =
     (case chained_le (wh_break_start w) appointment_start_time (wh_break_end w) of
        Inl e \<Rightarrow> Inl e
      | Inr True \<Rightarrow> Inr True
      | Inr False \<Rightarrow> chained_le (wh_break_start w) appointment_end_time (wh_break_end w))"

definition is_time_slot_available ::
    "db \<Rightarrow> int \<Rightarrow> datetime \<Rightarrow> datetime \<Rightarrow> error + bool" where
  "is_time_slot_available d doctor_id start_time end_time =
     (case find (overlap_filter doctor_id start_time end_time) (appointments d) of
        Some overlapping_appointment \<Rightarrow> Inr False
      | None \<Rightarrow>
         (case working_hours_query d doctor_id (weekday (date_of start_time)) of
            None \<Rightarrow> Inr False
          | Some w \<Rightarrow>
              if time_of start_time < wh_start_time w \<or> time_of end_time > wh_end_time w
              then Inr False
              else if wh_has_break w then
                (case in_break w (time_of start_time) (time_of end_time) of
                   Inl e \<Rightarrow> Inl e
                 | Inr True \<Rightarrow> Inr False
                 | Inr False \<Rightarrow> Inr True)
              else Inr True))"

section \<open>The availability read path\<close>

text \<open>
  The half-open overlap test the read path applies to the break and to every booked
  pair: \<open>slot_tuple[0] < hi and slot_tuple[1] > lo\<close>.
\<close>

definition tuple_overlaps :: "time \<times> time \<Rightarrow> time \<Rightarrow> time \<Rightarrow> bool" where
  "tuple_overlaps slot_tuple lo hi \<longleftrightarrow> fst slot_tuple < hi \<and> snd slot_tuple > lo"

definition break_excludes :: "working_hours \<Rightarrow> time \<times> time \<Rightarrow> bool" where
  "break_excludes w slot_tuple \<longleftrightarrow>
     (case (wh_has_break w, wh_break_start w, wh_break_end w) of
        (True, Some break_start, Some break_end) \<Rightarrow>
          tuple_overlaps slot_tuple break_start break_end
      | _ \<Rightarrow> False)"

definition booked_overlap :: "(time \<times> time) list \<Rightarrow> time \<times> time \<Rightarrow> bool" where
  "booked_overlap booked_slots slot_tuple \<longleftrightarrow>
     list_ex (\<lambda>booked. tuple_overlaps slot_tuple (fst booked) (snd booked)) booked_slots"

text \<open>
  The \<open>while\<close> loop of \<open>get_available_slots\<close>; \<open>slot_start\<close> and \<open>slot_end\<close> are
  datetimes. The list is built in the order of the \<open>append\<close> calls.
\<close>

function slots_loop ::
    "working_hours \<Rightarrow> (time \<times> time) list \<Rightarrow> datetime \<Rightarrow> datetime \<Rightarrow> (time \<times> time) list" where
  "slots_loop w booked_slots slot_start slot_end =
     (if slot_start + usec_per_hour \<le> slot_end then
        (let slot_tuple = (time_of slot_start, time_of (slot_start + usec_per_hour)) in
         if break_excludes w slot_tuple then
           slots_loop w booked_slots (slot_start + usec_per_hour) slot_end
         else if booked_overlap booked_slots slot_tuple then
           slots_loop w booked_slots (slot_start + usec_per_hour) slot_end
         else
           slot_tuple # slots_loop w booked_slots (slot_start + usec_per_hour) slot_end)
      else [])"
  by pat_completeness auto
termination
  by (relation "measure (\<lambda>(w, b, s, e). nat (e - s))") (auto simp: usec_per_hour_def)

declare slots_loop.simps [simp del]

text \<open>The appointments query of the read path and the set \<open>booked_slots\<close> built from it.\<close>

definition day_appointments :: "db \<Rightarrow> int \<Rightarrow> date \<Rightarrow> appointment list" where
  "day_appointments d doctor_id target_date =
     filter (\<lambda>a. appt_doctor_id a = doctor_id \<and>
                  appt_start_time a \<ge> combine target_date time_min \<and>
                  appt_start_time a < combine target_date time_max)
            (appointments d)"

definition booked_slots_of :: "appointment list \<Rightarrow> (time \<times> time) list" where
  "booked_slots_of appts =
     map (\<lambda>appt. (time_of (appt_start_time appt), time_of (appt_end_time appt))) appts"

text \<open>
  The slot tuples that pass both exclusions, for an already parsed target date, and
  the response built from them: one pair of \<open>"%H:%M"\<close> strings per slot (the values of
  the keys \<open>start_time\<close> and \<open>end_time\<close>).
\<close>

definition slot_tuples :: "db \<Rightarrow> int \<Rightarrow> date \<Rightarrow> (time \<times> time) list" where
  "slot_tuples d doctor_id target_date =
     (case working_hours_query d doctor_id (weekday target_date) of
        None \<Rightarrow> []
      | Some w \<Rightarrow>
          slots_loop w (booked_slots_of (day_appointments d doctor_id target_date))
            (combine target_date (wh_start_time w))
            (combine target_date (wh_end_time w)))"

definition get_available_slots :: "db \<Rightarrow> int \<Rightarrow> date \<Rightarrow> (string \<times> string) list" where
  "get_available_slots d doctor_id target_date =
     map (\<lambda>slot_tuple. (strftime_HM (fst slot_tuple), strftime_HM (snd slot_tuple)))
         (slot_tuples d doctor_id target_date)"

section \<open>Creating an appointment\<close>

text \<open>The relationships \<open>appointment.doctor\<close> and \<open>appointment.patient\<close>: \<open>None\<close> when no
  user row has the id, and then reading \<open>.full_name\<close> raises \<open>AttributeError\<close>.\<close>

definition appointment_doctor :: "db \<Rightarrow> appointment \<Rightarrow> user option" where
  "appointment_doctor d a = find (\<lambda>u. user_id u = appt_doctor_id a) (users d)"

definition appointment_patient :: "db \<Rightarrow> appointment \<Rightarrow> user option" where
  "appointment_patient d a = find (\<lambda>u. user_id u = appt_patient_id a) (users d)"

definition generate_qr_code :: "db \<Rightarrow> int \<Rightarrow> error + verification_data" where
  "generate_qr_code d appointment_id =
     (case find (\<lambda>a. appt_id a = appointment_id) (appointments d) of
        None \<Rightarrow> Inl (HTTPException 404 ''Appointment not found'')
      | Some a \<Rightarrow>
         (case appointment_patient d a of
            None \<Rightarrow> Inl AttributeError
          | Some p \<Rightarrow>
              Inr \<lparr>vd_appointment_id = appointment_id,
                   vd_patient_id = appt_patient_id a,
                   vd_patient_name = user_full_name p,
                   vd_appointment_time = appt_start_time a,
                   vd_status = appt_status a\<rparr>))"

text \<open>A committed change of one row, found by its primary key.\<close>

definition update_row :: "int \<Rightarrow> (appointment \<Rightarrow> appointment) \<Rightarrow> db \<Rightarrow> db" where
  "update_row i f d =
     d\<lparr>appointments := map (\<lambda>a. if appt_id a = i then f a else a) (appointments d)\<rparr>"

text \<open>
  \<open>create_appointment\<close> returns the response (the appointment, or the exception) and
  the state of the database after the request: rows committed before an exception
  stay. The request body is \<open>doctor_id\<close> and \<open>start_time\<close>.
\<close>

definition create_appointment ::
    "db \<Rightarrow> user \<Rightarrow> int \<Rightarrow> datetime \<Rightarrow> (error + appointment) \<times> db" where
  "create_appointment d current_user doctor_id start_time =
     (if user_is_doctor current_user then
        (Inl (HTTPException 403 ''Doctors cannot create appointments''), d)
      else
        let end_time = start_time + usec_per_hour in
        case is_time_slot_available d doctor_id start_time end_time of
          Inl e \<Rightarrow> (Inl e, d)
        | Inr False \<Rightarrow> (Inl (HTTPException 400 ''Time slot is not available''), d)
        | Inr True \<Rightarrow>
            let db_appointment =
                  \<lparr>appt_id = next_id (map appt_id (appointments d)),
                   appt_doctor_id = doctor_id,
                   appt_patient_id = user_id current_user,
                   appt_start_time = start_time,
                   appt_end_time = end_time,
                   appt_status = SCHEDULED,
                   appt_qr_code = None\<rparr>;
                d1 = d\<lparr>appointments := appointments d @ [db_appointment]\<rparr>
            in
            case generate_qr_code d1 (appt_id db_appointment) of
              Inl e \<Rightarrow> (Inl e, d1)
            | Inr qr_code \<Rightarrow>
                let d2 = update_row (appt_id db_appointment)
                           (\<lambda>a. a\<lparr>appt_qr_code := Some qr_code\<rparr>) d1;
                    db_appointment = db_appointment\<lparr>appt_qr_code := Some qr_code\<rparr>
                in
                case appointment_doctor d2 db_appointment of
                  None \<Rightarrow> (Inl AttributeError, d2)
                | Some doctor \<Rightarrow>
                    let notification =
                          \<lparr>ntf_id = next_id (map ntf_id (notifications d2)),
                           ntf_user_id = user_id current_user,
                           ntf_title = ''Appointment Confirmed'',
                           ntf_message =
                             Has_been_confirmed_for (user_full_name doctor)
                               (appt_start_time db_appointment),
                           ntf_type = ''appointment'',
                           ntf_appointment_id = Some (appt_id db_appointment)\<rparr>
                    in (Inr db_appointment,
                        d2\<lparr>notifications := notifications d2 @ [notification]\<rparr>))"

section \<open>Changing the status of an appointment\<close>

text \<open>
  In \<open>update_appointment_status\<close> the parameter \<open>status\<close> (the requested
  \<open>AppointmentStatus\<close>) hides the imported module \<open>status\<close>, so building either
  \<open>HTTPException\<close> evaluates \<open>status.HTTP_404_NOT_FOUND\<close> or \<open>status.HTTP_403_FORBIDDEN\<close> on an
  enum member and raises \<open>AttributeError\<close>.
\<close>

definition update_appointment_status ::
    "db \<Rightarrow> user \<Rightarrow> int \<Rightarrow> AppointmentStatus \<Rightarrow> (error + string) \<times> db" where
  "update_appointment_status d current_user appointment_id status =
     (case find (\<lambda>a. appt_id a = appointment_id) (appointments d) of
        None \<Rightarrow> (Inl AttributeError, d)
      | Some a \<Rightarrow>
          if user_id current_user \<noteq> appt_doctor_id a \<or> \<not> user_is_doctor current_user
          then (Inl AttributeError, d)
          else (Inr ''Appointment status updated successfully'',
                update_row appointment_id (\<lambda>a. a\<lparr>appt_status := status\<rparr>) d))"

text \<open>The status the stored appointment with a given id has, if there is one.\<close>

definition status_of :: "db \<Rightarrow> int \<Rightarrow> AppointmentStatus option" where
  "status_of d appointment_id =
     map_option appt_status (find (\<lambda>a. appt_id a = appointment_id) (appointments d))"

section \<open>Declaring working hours\<close>

record WorkingHoursCreate =
  whc_day_of_week :: int
  whc_start_time :: time
  whc_end_time :: time
  whc_has_break :: bool
  whc_break_start :: "time option"
  whc_break_end :: "time option"

definition create_working_hours ::
    "db \<Rightarrow> user \<Rightarrow> int \<Rightarrow> WorkingHoursCreate \<Rightarrow> (error + working_hours) \<times> db" where
  "create_working_hours d current_user doctor_id working_hours =
     (if user_id current_user \<noteq> doctor_id \<or> \<not> user_is_doctor current_user then
        (Inl (HTTPException 403 ''Not authorized to set working hours''), d)
      else if whc_start_time working_hours \<ge> whc_end_time working_hours then
        (Inl (HTTPException 400 ''Start time must be before end time''), d)
      else
        case (if whc_has_break working_hours then
                (case (whc_break_start working_hours, whc_break_end working_hours) of
                   (Some break_start, Some break_end) \<Rightarrow>
                     if break_start \<ge> break_end then
                       Some (HTTPException 400
                               ''Break start time must be before break end time'')
                     else None
                 | _ \<Rightarrow>
                     Some (HTTPException 400
                       ''Break start and end times are required when has_break is True''))
              else None) of
          Some e \<Rightarrow> (Inl e, d)
        | None \<Rightarrow>
            let db_working_hours =
                  \<lparr>wh_id = next_id (map wh_id (working_hours_rows d)),
                   wh_doctor_id = doctor_id,
                   wh_day_of_week = whc_day_of_week working_hours,
                   wh_start_time = whc_start_time working_hours,
                   wh_end_time = whc_end_time working_hours,
                   wh_has_break = whc_has_break working_hours,
                   wh_break_start = whc_break_start working_hours,
                   wh_break_end = whc_break_end working_hours,
                   wh_is_available = True\<rparr>
            in (Inr db_working_hours,
                d\<lparr>working_hours_rows := working_hours_rows d @ [db_working_hours]\<rparr>))"

section \<open>The reminder tick\<close>

definition create_appointment_notification ::
    "db \<Rightarrow> appointment \<Rightarrow> string \<Rightarrow> (error + unit) \<times> db" where
  "create_appointment_notification d appointment notification_type =
     (case (if notification_type = ''reminder'' then
              (case appointment_doctor d appointment of
                 None \<Rightarrow> Inl AttributeError
               | Some doctor \<Rightarrow>
                   Inr (''Appointment Reminder'',
                        Is_scheduled_for (user_full_name doctor) (appt_start_time appointment)))
            else if notification_type = ''confirmation'' then
              (case appointment_doctor d appointment of
                 None \<Rightarrow> Inl AttributeError
               | Some doctor \<Rightarrow>
                   Inr (''Appointment Confirmed'',
                        Has_been_confirmed_for (user_full_name doctor)
                          (appt_start_time appointment)))
            else Inl UnboundLocalError) of
        Inl e \<Rightarrow> (Inl e, d)
      | Inr (title, message) \<Rightarrow>
          let notification =
                \<lparr>ntf_id = next_id (map ntf_id (notifications d)),
                 ntf_user_id = appt_patient_id appointment,
                 ntf_title = title,
                 ntf_message = message,
                 ntf_type = ''appointment'',
                 ntf_appointment_id = Some (appt_id appointment)\<rparr>
          in (Inr (), d\<lparr>notifications := notifications d @ [notification]\<rparr>))"

text \<open>The \<open>for\<close> loop of the tick: an exception ends it, what was committed stays.\<close>

fun remind_each :: "db \<Rightarrow> appointment list \<Rightarrow> (error + unit) \<times> db" where
  "remind_each d [] = (Inr (), d)"
| "remind_each d (appointment # rest) =
     (case create_appointment_notification d appointment ''reminder'' of
        (Inl e, d') \<Rightarrow> (Inl e, d')
      | (Inr u, d') \<Rightarrow> remind_each d' rest)"

text \<open>
  \<open>check_upcoming_appointments\<close> reads the clock twice: \<open>now1\<close> is the reading that
  \<open>tomorrow\<close> is computed from, \<open>now2\<close> the later reading inside the filter.
\<close>

definition upcoming :: "datetime \<Rightarrow> datetime \<Rightarrow> appointment \<Rightarrow> bool" where
  "upcoming now1 now2 a \<longleftrightarrow>
     appt_start_time a \<le> now1 + usec_per_day \<and>
     appt_start_time a > now2 \<and>
     appt_status a = SCHEDULED"

definition check_upcoming_appointments ::
    "datetime \<Rightarrow> datetime \<Rightarrow> db \<Rightarrow> (error + unit) \<times> db" where
  "check_upcoming_appointments now1 now2 d =
     remind_each d (filter (upcoming now1 now2) (appointments d))"

section \<open>Well-formed values and example tables\<close>

text \<open>A \<open>time\<close> value of Python lies within one day.\<close>

definition valid_time :: "time \<Rightarrow> bool" where
  "valid_time t \<longleftrightarrow> 0 \<le> t \<and> t < usec_per_day"

text \<open>
  The tables used in the scenarios below: \<open>hm h m\<close> is \<open>time(h, m)\<close>, \<open>monday\<close> is the
  ordinal of 2024-01-01 (a Monday), doctor 7 works Mondays from 09:00 to 17:00.
\<close>

definition hm :: "int \<Rightarrow> int \<Rightarrow> time" where
  "hm h m = h * usec_per_hour + m * usec_per_minute"

definition monday :: date where
  "monday = 738886"

definition dr_who :: user where
  "dr_who = \<lparr>user_id = 7, user_full_name = ''Who'', user_is_doctor = True\<rparr>"

definition pat :: user where
  "pat = \<lparr>user_id = 8, user_full_name = ''Pat'', user_is_doctor = False\<rparr>"

definition nine_to_five :: working_hours where
  "nine_to_five =
     \<lparr>wh_id = 1, wh_doctor_id = 7, wh_day_of_week = 0,
      wh_start_time = hm 9 0, wh_end_time = hm 17 0,
      wh_has_break = False, wh_break_start = None, wh_break_end = None,
      wh_is_available = True\<rparr>"

definition lunch_break :: working_hours where
  "lunch_break =
     nine_to_five\<lparr>wh_has_break := True, wh_break_start := Some (hm 12 0),
                  wh_break_end := Some (hm 13 0)\<rparr>"

definition db_plain :: db where
  "db_plain = \<lparr>users = [dr_who, pat], working_hours_rows = [nine_to_five],
               appointments = [], notifications = []\<rparr>"

definition db_lunch :: db where
  "db_lunch = db_plain\<lparr>working_hours_rows := [lunch_break]\<rparr>"

definition db_no_hours :: db where
  "db_no_hours = db_plain\<lparr>working_hours_rows := []\<rparr>"

definition booked_10 :: appointment where
  "booked_10 =
     \<lparr>appt_id = 1, appt_doctor_id = 7, appt_patient_id = 8,
      appt_start_time = combine monday (hm 10 0), appt_end_time = combine monday (hm 11 0),
      appt_status = SCHEDULED, appt_qr_code = None\<rparr>"

definition cancelled_9 :: appointment where
  "cancelled_9 =
     \<lparr>appt_id = 1, appt_doctor_id = 7, appt_patient_id = 8,
      appt_start_time = combine monday (hm 9 0), appt_end_time = combine monday (hm 10 0),
      appt_status = CANCELLED, appt_qr_code = None\<rparr>"

definition db_booked :: db where
  "db_booked = db_plain\<lparr>appointments := [booked_10]\<rparr>"

definition db_cancelled :: db where
  "db_cancelled = db_plain\<lparr>appointments := [cancelled_9]\<rparr>"

text \<open>
  The lifecycle of the specification, in its words: scheduled, confirmed, in progress,
  completed in this order, cancelled reachable from scheduled, confirmed and in
  progress; completed and cancelled have no outgoing transition. The source has no
  such table.
\<close>

definition lifecycle_allows :: "AppointmentStatus \<Rightarrow> AppointmentStatus \<Rightarrow> bool" where
  "lifecycle_allows current target \<longleftrightarrow>
     (current, target) \<in> set [(SCHEDULED, CONFIRMED), (CONFIRMED, IN_PROGRESS),
                             (IN_PROGRESS, COMPLETED), (SCHEDULED, CANCELLED),
                             (CONFIRMED, CANCELLED), (IN_PROGRESS, CANCELLED)]"

text \<open>A request body whose break lies after the end of the working window.\<close>

definition break_outside_window :: WorkingHoursCreate where
  "break_outside_window =
     \<lparr>whc_day_of_week = 0, whc_start_time = hm 9 0, whc_end_time = hm 17 0,
      whc_has_break = True, whc_break_start = Some (hm 18 0),
      whc_break_end = Some (hm 19 0)\<rparr>"

text \<open>
  A working-hours row with \<open>has_break\<close> set and no break bounds (such a row can be
  stored through \<open>update_working_hours\<close>, which validates nothing), and the table of
  the reminder scenario: at 08:00 on Monday three appointments start in 23 hours
  (scheduled), in 25 hours (scheduled) and in 23 hours (cancelled).
\<close>

definition db_null_break :: db where
  "db_null_break =
     db_plain\<lparr>working_hours_rows := [nine_to_five\<lparr>wh_has_break := True\<rparr>]\<rparr>"

definition now_8am :: datetime where
  "now_8am = combine monday (hm 8 0)"

definition db_upcoming :: db where
  "db_upcoming =
     db_plain\<lparr>appointments :=
       [booked_10\<lparr>appt_id := 1, appt_start_time := now_8am + 23 * usec_per_hour,
                   appt_end_time := now_8am + 24 * usec_per_hour\<rparr>,
        booked_10\<lparr>appt_id := 2, appt_start_time := now_8am + 25 * usec_per_hour,
                   appt_end_time := now_8am + 26 * usec_per_hour\<rparr>,
        booked_10\<lparr>appt_id := 3,
                   appt_start_time := now_8am + 23 * usec_per_hour,
                   appt_end_time := now_8am + 24 * usec_per_hour,
                   appt_status := CANCELLED\<rparr>]\<rparr>"

text \<open>
  Doctor 7 with the break from 12:00 to 13:00, a scheduled appointment from 10:00 to
  11:00 and a cancelled one from 09:00 to 10:00.
\<close>

definition db_busy :: db where
  "db_busy = db_lunch\<lparr>appointments := [booked_10, cancelled_9\<lparr>appt_id := 2\<rparr>]\<rparr>"

text \<open>Doctor 7 working Mondays from 20:00 to 23:30, without a break.\<close>

definition late_shift :: working_hours where
  "late_shift = nine_to_five\<lparr>wh_start_time := hm 20 0, wh_end_time := hm 23 30\<rparr>"

definition db_late :: db where
  "db_late = db_plain\<lparr>working_hours_rows := [late_shift]\<rparr>"

section \<open>Arithmetic of days and hours\<close>

lemmas example_defs =
  hm_def monday_def dr_who_def pat_def nine_to_five_def lunch_break_def db_plain_def
  db_lunch_def db_no_hours_def booked_10_def cancelled_9_def db_booked_def db_cancelled_def
  db_null_break_def now_8am_def db_upcoming_def db_busy_def late_shift_def db_late_def

lemmas time_defs =
  usec_per_minute_def usec_per_hour_def usec_per_day_def date_of_def time_of_def
  combine_def time_min_def time_max_def weekday_def


lemma usec_pos: "0 < usec_per_hour" "0 < usec_per_day" "usec_per_hour < usec_per_day"
  by (simp_all add: usec_per_hour_def usec_per_day_def)

lemma in_day_div_mod:
  fixes t D n :: int
  assumes "D * n \<le> t" "t < D * n + n"
  shows "t div n = D" and "t mod n = t - D * n"
proof -
  have e: "t = n * D + (t - D * n)" by simp
  have r: "0 \<le> t - D * n" "t - D * n < n" using assms by linarith+
  show "t div n = D" by (rule int_div_pos_eq [OF e r])
  show "t mod n = t - D * n" by (rule int_mod_pos_eq [OF e r])
qed

lemma date_of_iff:
  "date_of t = D \<longleftrightarrow> D * usec_per_day \<le> t \<and> t < D * usec_per_day + usec_per_day"
proof
  assume "date_of t = D"
  then have d: "D = t div usec_per_day" by (simp add: date_of_def)
  have "t = (t div usec_per_day) * usec_per_day + t mod usec_per_day" by simp
  moreover have "0 \<le> t mod usec_per_day" "t mod usec_per_day < usec_per_day"
    using usec_pos(2) by simp_all
  ultimately show "D * usec_per_day \<le> t \<and> t < D * usec_per_day + usec_per_day"
    unfolding d by linarith
next
  assume "D * usec_per_day \<le> t \<and> t < D * usec_per_day + usec_per_day"
  then show "date_of t = D"
    unfolding date_of_def by (simp add: in_day_div_mod(1))
qed


lemma time_of_in_day:
  "D * usec_per_day \<le> t \<Longrightarrow> t < D * usec_per_day + usec_per_day \<Longrightarrow>
   time_of t = t - D * usec_per_day"
  unfolding time_of_def by (rule in_day_div_mod(2))

lemma time_of_combine: "valid_time t \<Longrightarrow> time_of (combine D t) = t"
  unfolding time_of_def combine_def valid_time_def
  by simp

lemma date_of_combine: "valid_time t \<Longrightarrow> date_of (combine D t) = D"
  unfolding date_of_iff combine_def valid_time_def by simp


lemma slots_loop_elem:
  "x \<in> set (slots_loop w bk s e) \<Longrightarrow>
   \<exists>k::nat. x = (time_of (s + int k * usec_per_hour),
                 time_of (s + int k * usec_per_hour + usec_per_hour)) \<and>
            s + int k * usec_per_hour + usec_per_hour \<le> e \<and>
            \<not> break_excludes w x \<and> \<not> booked_overlap bk x"
proof (induction w bk s e rule: slots_loop.induct)
  case (1 w bk s e)
  let ?t = "(time_of s, time_of (s + usec_per_hour))"
  let ?rest = "slots_loop w bk (s + usec_per_hour) e"
  from "1.prems" have le: "s + usec_per_hour \<le> e"
    by (cases "s + usec_per_hour \<le> e") (simp_all add: slots_loop.simps [of w bk s e])
  from "1.prems" le have "(x = ?t \<and> \<not> break_excludes w ?t \<and> \<not> booked_overlap bk ?t) \<or> x \<in> set ?rest"
    by (simp add: slots_loop.simps [of w bk s e] Let_def split: if_splits)
  then show ?case
  proof
    assume h: "x = ?t \<and> \<not> break_excludes w ?t \<and> \<not> booked_overlap bk ?t"
    show ?thesis
      by (rule exI [of _ 0]) (use h le in simp)
  next
    assume "x \<in> set ?rest"
    then have "\<exists>k::nat. x = (time_of (s + usec_per_hour + int k * usec_per_hour),
                 time_of (s + usec_per_hour + int k * usec_per_hour + usec_per_hour)) \<and>
            s + usec_per_hour + int k * usec_per_hour + usec_per_hour \<le> e \<and>
            \<not> break_excludes w x \<and> \<not> booked_overlap bk x"
      using "1.IH" le
      by (cases "break_excludes w ?t"; cases "booked_overlap bk ?t") auto
    then obtain k :: nat where k:
      "x = (time_of (s + usec_per_hour + int k * usec_per_hour),
                 time_of (s + usec_per_hour + int k * usec_per_hour + usec_per_hour))"
      "s + usec_per_hour + int k * usec_per_hour + usec_per_hour \<le> e"
      "\<not> break_excludes w x" "\<not> booked_overlap bk x"
      by blast
    have e: "s + usec_per_hour + int k * usec_per_hour = s + int (Suc k) * usec_per_hour"
      by (simp add: algebra_simps)
    show ?thesis
      by (rule exI [of _ "Suc k"]) (use k in \<open>simp only: e, simp\<close>)
  qed
qed



lemma slots_loop_in_day:
  assumes "D * usec_per_day \<le> s" "e < D * usec_per_day + usec_per_day"
      and "x \<in> set (slots_loop w bk s e)"
  shows "\<exists>k::nat. fst x = s - D * usec_per_day + int k * usec_per_hour \<and>
                  snd x = fst x + usec_per_hour \<and>
                  s + int k * usec_per_hour + usec_per_hour \<le> e \<and>
                  \<not> break_excludes w x \<and> \<not> booked_overlap bk x"
proof -
  from slots_loop_elem [OF assms(3)] obtain k :: nat where k:
    "x = (time_of (s + int k * usec_per_hour),
          time_of (s + int k * usec_per_hour + usec_per_hour))"
    "s + int k * usec_per_hour + usec_per_hour \<le> e"
    "\<not> break_excludes w x" "\<not> booked_overlap bk x"
    by blast
  have nn: "0 \<le> int k * usec_per_hour" using usec_pos(1) by simp
  have a: "time_of (s + int k * usec_per_hour) = s + int k * usec_per_hour - D * usec_per_day"
    by (rule time_of_in_day) (use assms(1,2) k(2) nn usec_pos(1) in linarith)+
  have b: "time_of (s + int k * usec_per_hour + usec_per_hour) =
           s + int k * usec_per_hour + usec_per_hour - D * usec_per_day"
    by (rule time_of_in_day) (use assms(1,2) k(2) nn usec_pos(1) in linarith)+
  show ?thesis
    by (rule exI [of _ k]) (use k a b in simp)
qed

lemma slots_loop_sorted:
  "D * usec_per_day \<le> s \<Longrightarrow> e < D * usec_per_day + usec_per_day \<Longrightarrow>
   sorted_wrt (\<lambda>x y. fst x < fst y \<and> snd x \<le> fst y) (slots_loop w bk s e)"
proof (induction w bk s e rule: slots_loop.induct)
  case (1 w bk s e)
  let ?t = "(time_of s, time_of (s + usec_per_hour))"
  let ?rest = "slots_loop w bk (s + usec_per_hour) e"
  show ?case
  proof (cases "s + usec_per_hour \<le> e")
    case False
    then show ?thesis by (simp add: slots_loop.simps [of w bk s e])
  next
    case True
    have lo: "D * usec_per_day \<le> s + usec_per_hour"
      using "1.prems"(1) usec_pos(1) by linarith
    have rest: "sorted_wrt (\<lambda>x y. fst x < fst y \<and> snd x \<le> fst y) ?rest"
      using "1.IH" True lo "1.prems"(2)
      by (cases "break_excludes w ?t"; cases "booked_overlap bk ?t") auto
    have hd1: "time_of s = s - D * usec_per_day"
      by (rule time_of_in_day) (use "1.prems" True usec_pos(1) in linarith)+
    have hd2: "time_of (s + usec_per_hour) = s + usec_per_hour - D * usec_per_day"
      by (rule time_of_in_day) (use "1.prems" True usec_pos(1) in linarith)+
    have after: "fst ?t < fst y \<and> snd ?t \<le> fst y" if "y \<in> set ?rest" for y
    proof -
      from slots_loop_in_day [OF lo "1.prems"(2) that] obtain k :: nat where
        "fst y = s + usec_per_hour - D * usec_per_day + int k * usec_per_hour"
        by blast
      moreover have "0 \<le> int k * usec_per_hour" using usec_pos(1) by simp
      ultimately show ?thesis
        using usec_pos(1) unfolding fst_conv snd_conv hd1 hd2 by linarith
    qed
    show ?thesis
      using True rest after by (simp add: slots_loop.simps [of w bk s e] Let_def)
  qed
qed


lemma working_hours_query_None:
  "(\<forall>w \<in> set (working_hours_rows d).
      wh_doctor_id w = doctor_id \<and> wh_day_of_week w = day \<longrightarrow> \<not> wh_is_available w) \<Longrightarrow>
   working_hours_query d doctor_id day = None"
  by (auto simp: working_hours_query_def find_None_iff)

lemma find_update_row:
  "find (\<lambda>a. appt_id a = i) (map (\<lambda>a. if appt_id a = j then f a else a) xs) =
   map_option (\<lambda>a. if appt_id a = j then f a else a) (find (\<lambda>a. appt_id a = i) xs)"
  if "\<And>a. appt_id (f a) = appt_id a"
  using that by (induction xs) auto

section \<open>Fresh primary keys\<close>

lemma fold_max_ge: "(a::int) \<le> fold max xs a \<and> (\<forall>x \<in> set xs. x \<le> fold max xs a)"
proof (induction xs arbitrary: a)
  case Nil
  show ?case by simp
next
  case (Cons y ys)
  have "max y a \<le> fold max ys (max y a)" and "\<forall>x \<in> set ys. x \<le> fold max ys (max y a)"
    using Cons.IH [of "max y a"] by simp_all
  then show ?case by auto
qed

lemma next_id_fresh: "x \<in> set ids \<Longrightarrow> x < next_id ids"
  using fold_max_ge [of 0 ids] by (auto simp: next_id_def)

lemma old_rows_untouched:
  "map (\<lambda>a. if appt_id a = next_id (map appt_id xs) then f a else a) xs = xs"
proof -
  have "appt_id a \<noteq> next_id (map appt_id xs)" if "a \<in> set xs" for a
    using next_id_fresh [of "appt_id a" "map appt_id xs"] that by auto
  then show ?thesis by (simp add: map_idI)
qed

lemma find_append_None: "find P xs = None \<Longrightarrow> find P (xs @ ys) = find P ys"
  by (induction xs) auto

lemma find_new_row:
  assumes "appt_id n = next_id (map appt_id xs)"
  shows "find (\<lambda>a. appt_id a = next_id (map appt_id xs)) (xs @ [n]) = Some n"
proof -
  have "appt_id a \<noteq> next_id (map appt_id xs)" if "a \<in> set xs" for a
    using next_id_fresh [of "appt_id a" "map appt_id xs"] that by auto
  then have "find (\<lambda>a. appt_id a = next_id (map appt_id xs)) xs = None"
    by (simp add: find_None_iff)
  then show ?thesis using assms by (simp add: find_append_None)
qed

section \<open>The reminder loop\<close>

lemma remind_each_result:
  "\<forall>a \<in> set as. appointment_doctor d a \<noteq> None \<Longrightarrow>
   \<exists>new. remind_each d as = (Inr (), d\<lparr>notifications := notifications d @ new\<rparr>) \<and>
         map ntf_appointment_id new = map (\<lambda>a. Some (appt_id a)) as \<and>
         map ntf_user_id new = map appt_patient_id as \<and>
         (\<forall>n \<in> set new. ntf_title n = ''Appointment Reminder'')"
proof (induction as arbitrary: d)
  case Nil
  show ?case by (rule exI [of _ "[]"]) simp
next
  case (Cons a as)
  from Cons.prems obtain doctor where doc: "appointment_doctor d a = Some doctor"
    by auto
  let ?n = "\<lparr>ntf_id = next_id (map ntf_id (notifications d)),
             ntf_user_id = appt_patient_id a,
             ntf_title = ''Appointment Reminder'',
             ntf_message = Is_scheduled_for (user_full_name doctor) (appt_start_time a),
             ntf_type = ''appointment'',
             ntf_appointment_id = Some (appt_id a)\<rparr>"
  let ?d = "d\<lparr>notifications := notifications d @ [?n]\<rparr>"
  have step: "create_appointment_notification d a ''reminder'' = (Inr (), ?d)"
    using doc by (simp add: create_appointment_notification_def)
  have "\<forall>b \<in> set as. appointment_doctor ?d b \<noteq> None"
    using Cons.prems by (simp add: appointment_doctor_def)
  from Cons.IH [OF this] obtain new where new:
    "remind_each ?d as = (Inr (), ?d\<lparr>notifications := notifications ?d @ new\<rparr>)"
    "map ntf_appointment_id new = map (\<lambda>a. Some (appt_id a)) as"
    "map ntf_user_id new = map appt_patient_id as"
    "\<forall>n \<in> set new. ntf_title n = ''Appointment Reminder''"
    by blast
  show ?case
    by (rule exI [of _ "?n # new"]) (use step new in simp)
qed

section \<open>The overlap filter\<close>

lemma overlap_filter_half_open:
  "appt_start_time a < appt_end_time a \<Longrightarrow> start_time < end_time \<Longrightarrow>
   overlap_filter doctor_id start_time end_time a \<longleftrightarrow>
     appt_doctor_id a = doctor_id \<and> appt_status a \<noteq> CANCELLED \<and>
     appt_start_time a < end_time \<and> start_time < appt_end_time a"
  unfolding overlap_filter_def by auto

lemma admission_depends_on_matches:
  assumes "(\<exists>x \<in> set (appointments d). overlap_filter doctor_id start_time end_time x) =
           (\<exists>x \<in> set (appointments d'). overlap_filter doctor_id start_time end_time x)"
      and "working_hours_rows d = working_hours_rows d'"
  shows "is_time_slot_available d doctor_id start_time end_time =
         is_time_slot_available d' doctor_id start_time end_time"
proof -
  have "(find (overlap_filter doctor_id start_time end_time) (appointments d) = None) =
        (find (overlap_filter doctor_id start_time end_time) (appointments d') = None)"
    using assms(1) unfolding find_None_iff by blast
  then show ?thesis
    using assms(2)
    by (cases "find (overlap_filter doctor_id start_time end_time) (appointments d)";
        cases "find (overlap_filter doctor_id start_time end_time) (appointments d')")
       (simp_all add: is_time_slot_available_def working_hours_query_def)
qed

section \<open>Both paths on one day\<close>










section \<open>The rendering of a slot\<close>

















section \<open>The shape of the slot sequence\<close>

text \<open>
  C6. For every provider and date, the slot tuples rendered by \<open>get_available_slots\<close>
  are ascending by start time and pairwise non-overlapping, each is exactly one hour
  long, starts a whole number of hours after the start of the working window and ends
  no later than the end of the window; when the weekday has no working-hours row with
  \<open>is_available\<close> set, the result is the empty sequence. The times of the working-hours
  row are \<open>time\<close> values of Python, that is, within one day.
\<close>

theorem get_available_slots_ordered_hourly_aligned:
  "(\<forall>w. working_hours_query d doctor_id (weekday target_date) = Some w \<and>
        valid_time (wh_start_time w) \<and> valid_time (wh_end_time w) \<longrightarrow>
      sorted_wrt (\<lambda>x y. fst x < fst y \<and> snd x \<le> fst y)
        (slot_tuples d doctor_id target_date) \<and>
      (\<forall>x \<in> set (slot_tuples d doctor_id target_date).
         snd x = fst x + usec_per_hour \<and>
         (\<exists>k::nat. fst x = wh_start_time w + int k * usec_per_hour) \<and>
         snd x \<le> wh_end_time w)) \<and>
   ((\<forall>w \<in> set (working_hours_rows d).
       wh_doctor_id w = doctor_id \<and> wh_day_of_week w = weekday target_date \<longrightarrow>
       \<not> wh_is_available w) \<longrightarrow>
    slot_tuples d doctor_id target_date = [] \<and>
    get_available_slots d doctor_id target_date = [])"
proof (intro conjI allI impI ballI)
  fix w
  assume h: "working_hours_query d doctor_id (weekday target_date) = Some w \<and>
             valid_time (wh_start_time w) \<and> valid_time (wh_end_time w)"
  let ?bk = "booked_slots_of (day_appointments d doctor_id target_date)"
  let ?s = "combine target_date (wh_start_time w)"
  let ?e = "combine target_date (wh_end_time w)"
  have eq: "slot_tuples d doctor_id target_date = slots_loop w ?bk ?s ?e"
    using h by (simp add: slot_tuples_def)
  have lo: "target_date * usec_per_day \<le> ?s"
    using h by (simp add: combine_def valid_time_def)
  have hi: "?e < target_date * usec_per_day + usec_per_day"
    using h by (simp add: combine_def valid_time_def)
  show "sorted_wrt (\<lambda>x y. fst x < fst y \<and> snd x \<le> fst y)
          (slot_tuples d doctor_id target_date)"
    unfolding eq by (rule slots_loop_sorted [OF lo hi])
  fix x
  assume "x \<in> set (slot_tuples d doctor_id target_date)"
  then have "x \<in> set (slots_loop w ?bk ?s ?e)" by (simp only: eq)
  from slots_loop_in_day [OF lo hi this] obtain k :: nat where k:
    "fst x = ?s - target_date * usec_per_day + int k * usec_per_hour"
    "snd x = fst x + usec_per_hour"
    "?s + int k * usec_per_hour + usec_per_hour \<le> ?e"
    by blast
  show "snd x = fst x + usec_per_hour" by (rule k(2))
  show "\<exists>k::nat. fst x = wh_start_time w + int k * usec_per_hour"
    by (rule exI [of _ k]) (use k(1) in \<open>simp add: combine_def\<close>)
  show "snd x \<le> wh_end_time w"
    using k by (simp add: combine_def)
next
  assume "\<forall>w \<in> set (working_hours_rows d).
       wh_doctor_id w = doctor_id \<and> wh_day_of_week w = weekday target_date \<longrightarrow>
       \<not> wh_is_available w"
  then have n: "working_hours_query d doctor_id (weekday target_date) = None"
    by (rule working_hours_query_None)
  show "slot_tuples d doctor_id target_date = []"
    using n by (simp add: slot_tuples_def)
  then show "get_available_slots d doctor_id target_date = []"
    by (simp add: get_available_slots_def)
qed

theorem get_available_slots_ordered_hourly_aligned_witness:
  "working_hours_query db_lunch 7 (weekday monday) = Some lunch_break \<and>
   valid_time (wh_start_time lunch_break) \<and> valid_time (wh_end_time lunch_break) \<and>
   slot_tuples db_lunch 7 monday \<noteq> [] \<and>
   sorted_wrt (\<lambda>x y. fst x < fst y \<and> snd x \<le> fst y) (slot_tuples db_lunch 7 monday) \<and>
   list_all (\<lambda>x. snd x = fst x + usec_per_hour \<and>
                  (\<exists>k::nat. fst x = wh_start_time lunch_break + int k * usec_per_hour) \<and>
                  snd x \<le> wh_end_time lunch_break)
     (slot_tuples db_lunch 7 monday) \<and>
   working_hours_rows db_no_hours = [] \<and>
   get_available_slots db_no_hours 7 monday = []"
proof -
  have q: "working_hours_query db_lunch 7 (weekday monday) = Some lunch_break"
    by (simp add: working_hours_query_def example_defs time_defs)
  have v: "valid_time (wh_start_time lunch_break)" "valid_time (wh_end_time lunch_break)"
    by (simp_all add: valid_time_def example_defs time_defs)
  have ne: "slot_tuples db_lunch 7 monday \<noteq> []"
    by code_simp
  have n: "working_hours_rows db_no_hours = []"
    by (simp add: example_defs)
  have a: "sorted_wrt (\<lambda>x y. fst x < fst y \<and> snd x \<le> fst y) (slot_tuples db_lunch 7 monday)"
    using get_available_slots_ordered_hourly_aligned [of db_lunch 7 monday] q v by blast
  have "\<forall>x \<in> set (slot_tuples db_lunch 7 monday).
          snd x = fst x + usec_per_hour \<and>
          (\<exists>k::nat. fst x = wh_start_time lunch_break + int k * usec_per_hour) \<and>
          snd x \<le> wh_end_time lunch_break"
    using get_available_slots_ordered_hourly_aligned [of db_lunch 7 monday] q v by blast
  then have b: "list_all (\<lambda>x. snd x = fst x + usec_per_hour \<and>
                  (\<exists>k::nat. fst x = wh_start_time lunch_break + int k * usec_per_hour) \<and>
                  snd x \<le> wh_end_time lunch_break)
     (slot_tuples db_lunch 7 monday)"
    unfolding list_all_iff .
  have c: "get_available_slots db_no_hours 7 monday = []"
    using get_available_slots_ordered_hourly_aligned [of db_no_hours 7 monday] n by simp
  show ?thesis
    by (intro conjI) (fact q v ne a b n c)+
qed

section \<open>Breaks at booking time\<close>

text \<open>
  C2. Doctor 7 works Mondays 09:00 to 17:00 with a break from 12:00 to 13:00. The
  bookings 12:00 to 13:00 and 11:30 to 12:30 are rejected. The booking 11:00 to 12:00
  only abuts the break (the half-open test finds no overlap), yet
  \<open>is_time_slot_available\<close> rejects it too: its break test compares both ends of the
  booking with the closed interval from \<open>break_start\<close> to \<open>break_end\<close>. The read path
  offers that same slot.
\<close>

theorem booking_abutting_break_is_rejected:
  "is_time_slot_available db_lunch 7 (combine monday (hm 12 0)) (combine monday (hm 13 0)) = Inr False \<and>
   is_time_slot_available db_lunch 7 (combine monday (hm 11 30)) (combine monday (hm 12 30)) = Inr False \<and>
   \<not> tuple_overlaps (hm 11 0, hm 12 0) (hm 12 0) (hm 13 0) \<and>
   is_time_slot_available db_lunch 7 (combine monday (hm 11 0)) (combine monday (hm 12 0)) = Inr False \<and>
   (''11:00'', ''12:00'') \<in> set (get_available_slots db_lunch 7 monday)"
  by code_simp

section \<open>Cancelled appointments on the read path\<close>

text \<open>
  C8. The only appointment of doctor 7 is cancelled and lies on Monday from 09:00 to
  10:00; there is no break. The read path leaves the slot 09:00 to 10:00 out (its
  query does not look at the status), while the booking-time check admits it.
\<close>

theorem cancelled_appointment_blocks_slot:
  "appointments db_cancelled = [cancelled_9] \<and>
   appt_status cancelled_9 = CANCELLED \<and>
   working_hours_query db_cancelled 7 (weekday monday) = Some nine_to_five \<and>
   \<not> wh_has_break nine_to_five \<and>
   (hm 9 0, hm 10 0) \<notin> set (slot_tuples db_cancelled 7 monday) \<and>
   get_available_slots db_cancelled 7 monday =
     [(''10:00'', ''11:00''), (''11:00'', ''12:00''), (''12:00'', ''13:00''),
      (''13:00'', ''14:00''), (''14:00'', ''15:00''), (''15:00'', ''16:00''),
      (''16:00'', ''17:00'')] \<and>
   is_time_slot_available db_cancelled 7 (combine monday (hm 9 0)) (combine monday (hm 10 0)) = Inr True"
  by code_simp

section \<open>Status changes\<close>

text \<open>
  C4, as stated, fails: the appointment of doctor 7 is scheduled, the lifecycle of the
  specification has no transition from scheduled to completed, and
  \<open>update_appointment_status\<close> called by that doctor succeeds and stores completed.
\<close>

theorem update_appointment_status_direct_completion_counterexample:
  "status_of db_booked 1 = Some SCHEDULED \<and>
   \<not> lifecycle_allows SCHEDULED COMPLETED \<and>
   fst (update_appointment_status db_booked dr_who 1 COMPLETED) =
     Inr ''Appointment status updated successfully'' \<and>
   status_of (snd (update_appointment_status db_booked dr_who 1 COMPLETED)) 1 = Some COMPLETED"
  by code_simp

text \<open>
  C4, amended. \<open>update_appointment_status\<close> has no transition table: called by the
  doctor of an existing appointment it succeeds for every requested status and stores
  it, whatever the current status is. Whenever the call fails, the database is left as
  it was.
\<close>

theorem update_appointment_status_sets_requested_status:
  "(\<forall>a. find (\<lambda>a. appt_id a = appointment_id) (appointments d) = Some a \<and>
        user_id current_user = appt_doctor_id a \<and> user_is_doctor current_user \<longrightarrow>
      fst (update_appointment_status d current_user appointment_id status) =
        Inr ''Appointment status updated successfully'' \<and>
      status_of (snd (update_appointment_status d current_user appointment_id status))
        appointment_id = Some status) \<and>
   (isl (fst (update_appointment_status d current_user appointment_id status)) \<longrightarrow>
      snd (update_appointment_status d current_user appointment_id status) = d)"
proof (intro conjI allI impI)
  fix a
  assume h: "find (\<lambda>a. appt_id a = appointment_id) (appointments d) = Some a \<and>
        user_id current_user = appt_doctor_id a \<and> user_is_doctor current_user"
  then show "fst (update_appointment_status d current_user appointment_id status) =
        Inr ''Appointment status updated successfully''"
    by (simp add: update_appointment_status_def)
  have id: "appt_id a = appointment_id"
    using h by (auto simp: find_Some_iff)
  show "status_of (snd (update_appointment_status d current_user appointment_id status))
        appointment_id = Some status"
    using h id
    by (simp add: update_appointment_status_def status_of_def update_row_def find_update_row)
next
  assume "isl (fst (update_appointment_status d current_user appointment_id status))"
  then show "snd (update_appointment_status d current_user appointment_id status) = d"
    by (auto simp: update_appointment_status_def split: option.splits if_splits)
qed

theorem update_appointment_status_sets_requested_status_witness:
  "find (\<lambda>a. appt_id a = 1) (appointments db_booked) = Some booked_10 \<and>
   user_id dr_who = appt_doctor_id booked_10 \<and> user_is_doctor dr_who \<and>
   appt_status booked_10 = SCHEDULED \<and>
   status_of (snd (update_appointment_status db_booked dr_who 1 COMPLETED)) 1 = Some COMPLETED \<and>
   status_of (snd (update_appointment_status db_booked dr_who 1 CONFIRMED)) 1 = Some CONFIRMED \<and>
   isl (fst (update_appointment_status db_booked pat 1 CANCELLED)) \<and>
   snd (update_appointment_status db_booked pat 1 CANCELLED) = db_booked"
proof -
  have f: "find (\<lambda>a. appt_id a = 1) (appointments db_booked) = Some booked_10"
    by (simp add: example_defs)
  have u: "user_id dr_who = appt_doctor_id booked_10" "user_is_doctor dr_who"
          "appt_status booked_10 = SCHEDULED"
    by (simp_all add: example_defs)
  have i: "isl (fst (update_appointment_status db_booked pat 1 CANCELLED))"
    by (simp add: update_appointment_status_def example_defs)
  have a: "status_of (snd (update_appointment_status db_booked dr_who 1 COMPLETED)) 1 = Some COMPLETED"
    using update_appointment_status_sets_requested_status [of 1 db_booked dr_who COMPLETED] f u
    by blast
  have b: "status_of (snd (update_appointment_status db_booked dr_who 1 CONFIRMED)) 1 = Some CONFIRMED"
    using update_appointment_status_sets_requested_status [of 1 db_booked dr_who CONFIRMED] f u
    by blast
  have c: "snd (update_appointment_status db_booked pat 1 CANCELLED) = db_booked"
    using update_appointment_status_sets_requested_status [of 1 db_booked pat CANCELLED] i
    by blast
  show ?thesis
    by (intro conjI) (fact f u a b i c)+
qed

section \<open>Validation of working hours\<close>

text \<open>
  C5, as stated, fails: a window from 09:00 to 17:00 with a break from 18:00 to 19:00,
  sent by the doctor, is accepted and stored.
\<close>

theorem create_working_hours_break_outside_window_counterexample:
  "whc_end_time break_outside_window < the (whc_break_start break_outside_window) \<and>
   isl (fst (create_working_hours db_no_hours dr_who 7 break_outside_window)) = False \<and>
   map wh_break_start
     (working_hours_rows (snd (create_working_hours db_no_hours dr_who 7 break_outside_window))) =
     [Some (hm 18 0)]"
  by code_simp

text \<open>
  C5, amended. For the doctor the entry is for, \<open>create_working_hours\<close> fails with the
  window error when \<open>start_time >= end_time\<close>; when the window is in order and a break
  is declared, it fails with a break error when a bound is missing or when
  \<open>break_start >= break_end\<close>, and it stores the entry when \<open>break_start < break_end\<close>,
  wherever the break lies relative to the window. Whenever the call fails, for any
  caller, no entry is stored.
\<close>

theorem create_working_hours_validation:
  "(user_id current_user = doctor_id \<and> user_is_doctor current_user \<and>
    whc_start_time working_hours \<ge> whc_end_time working_hours \<longrightarrow>
      create_working_hours d current_user doctor_id working_hours =
        (Inl (HTTPException 400 ''Start time must be before end time''), d)) \<and>
   (user_id current_user = doctor_id \<and> user_is_doctor current_user \<and>
    whc_start_time working_hours < whc_end_time working_hours \<and>
    whc_has_break working_hours \<and>
    (whc_break_start working_hours = None \<or> whc_break_end working_hours = None) \<longrightarrow>
      create_working_hours d current_user doctor_id working_hours =
        (Inl (HTTPException 400
           ''Break start and end times are required when has_break is True''), d)) \<and>
   (\<forall>break_start break_end.
      user_id current_user = doctor_id \<and> user_is_doctor current_user \<and>
      whc_start_time working_hours < whc_end_time working_hours \<and>
      whc_has_break working_hours \<and>
      whc_break_start working_hours = Some break_start \<and>
      whc_break_end working_hours = Some break_end \<and> break_start \<ge> break_end \<longrightarrow>
      create_working_hours d current_user doctor_id working_hours =
        (Inl (HTTPException 400 ''Break start time must be before break end time''), d)) \<and>
   (\<forall>break_start break_end.
      user_id current_user = doctor_id \<and> user_is_doctor current_user \<and>
      whc_start_time working_hours < whc_end_time working_hours \<and>
      whc_has_break working_hours \<and>
      whc_break_start working_hours = Some break_start \<and>
      whc_break_end working_hours = Some break_end \<and> break_start < break_end \<longrightarrow>
      isl (fst (create_working_hours d current_user doctor_id working_hours)) = False \<and>
      length (working_hours_rows
                (snd (create_working_hours d current_user doctor_id working_hours))) =
        Suc (length (working_hours_rows d))) \<and>
   (isl (fst (create_working_hours d current_user doctor_id working_hours)) \<longrightarrow>
      snd (create_working_hours d current_user doctor_id working_hours) = d)"
  by (auto simp: create_working_hours_def Let_def split: option.splits if_splits)

theorem create_working_hours_validation_witness:
  "user_id dr_who = 7 \<and> user_is_doctor dr_who \<and>
   create_working_hours db_no_hours dr_who 7
       (break_outside_window\<lparr>whc_start_time := hm 17 0, whc_end_time := hm 9 0\<rparr>) =
     (Inl (HTTPException 400 ''Start time must be before end time''), db_no_hours) \<and>
   create_working_hours db_no_hours dr_who 7
       (break_outside_window\<lparr>whc_break_end := None\<rparr>) =
     (Inl (HTTPException 400
        ''Break start and end times are required when has_break is True''), db_no_hours) \<and>
   create_working_hours db_no_hours dr_who 7
       (break_outside_window\<lparr>whc_break_start := Some (hm 13 0),
                              whc_break_end := Some (hm 12 0)\<rparr>) =
     (Inl (HTTPException 400 ''Break start time must be before break end time''),
      db_no_hours) \<and>
   length (working_hours_rows
             (snd (create_working_hours db_no_hours dr_who 7 break_outside_window))) = 1 \<and>
   isl (fst (create_working_hours db_no_hours pat 7 break_outside_window)) \<and>
   snd (create_working_hours db_no_hours pat 7 break_outside_window) = db_no_hours"
proof -
  have u: "user_id dr_who = 7" "user_is_doctor dr_who"
    by (simp_all add: example_defs)
  have w: "create_working_hours db_no_hours dr_who 7
       (break_outside_window\<lparr>whc_start_time := hm 17 0, whc_end_time := hm 9 0\<rparr>) =
     (Inl (HTTPException 400 ''Start time must be before end time''), db_no_hours)"
    using create_working_hours_validation [of dr_who 7
        "break_outside_window\<lparr>whc_start_time := hm 17 0, whc_end_time := hm 9 0\<rparr>"
        db_no_hours] u
    by (simp add: example_defs break_outside_window_def time_defs)
  have m: "create_working_hours db_no_hours dr_who 7
       (break_outside_window\<lparr>whc_break_end := None\<rparr>) =
     (Inl (HTTPException 400
        ''Break start and end times are required when has_break is True''), db_no_hours)"
    using create_working_hours_validation [of dr_who 7
        "break_outside_window\<lparr>whc_break_end := None\<rparr>" db_no_hours] u
    by (simp add: example_defs break_outside_window_def time_defs)
  have r: "create_working_hours db_no_hours dr_who 7
       (break_outside_window\<lparr>whc_break_start := Some (hm 13 0),
                              whc_break_end := Some (hm 12 0)\<rparr>) =
     (Inl (HTTPException 400 ''Break start time must be before break end time''),
      db_no_hours)"
    using create_working_hours_validation [of dr_who 7
        "break_outside_window\<lparr>whc_break_start := Some (hm 13 0),
                              whc_break_end := Some (hm 12 0)\<rparr>" db_no_hours] u
    by (simp add: example_defs break_outside_window_def time_defs)
  have a: "length (working_hours_rows
             (snd (create_working_hours db_no_hours dr_who 7 break_outside_window))) = 1"
    using create_working_hours_validation [of dr_who 7 break_outside_window db_no_hours] u
    by (simp add: example_defs break_outside_window_def time_defs)
  have i: "isl (fst (create_working_hours db_no_hours pat 7 break_outside_window))"
    by (simp add: create_working_hours_def example_defs)
  have n: "snd (create_working_hours db_no_hours pat 7 break_outside_window) = db_no_hours"
    using create_working_hours_validation [of pat 7 break_outside_window db_no_hours] i
    by blast
  show ?thesis
    by (intro conjI) (fact u w m r a i n)+
qed

section \<open>Who may book, and what is stored\<close>

text \<open>
  C10. A caller whose \<open>is_doctor\<close> flag is set gets the 403 error from
  \<open>create_appointment\<close> whatever the database holds, so also where the availability
  check itself would raise, and the database is unchanged. Whatever the outcome of a
  call, the appointments table is either unchanged or has exactly one new row, whose
  patient is the caller, whose status is scheduled, whose start is the requested
  start and whose end is one hour later.
\<close>

theorem create_appointment_forbidden_for_doctors_and_row_created:
  "(user_is_doctor current_user \<longrightarrow>
      create_appointment d current_user doctor_id start_time =
        (Inl (HTTPException 403 ''Doctors cannot create appointments''), d)) \<and>
   (appointments (snd (create_appointment d current_user doctor_id start_time)) =
      appointments d \<or>
    (\<exists>a. appointments (snd (create_appointment d current_user doctor_id start_time)) =
            appointments d @ [a] \<and>
          appt_patient_id a = user_id current_user \<and>
          appt_status a = SCHEDULED \<and>
          appt_start_time a = start_time \<and>
          appt_end_time a = appt_start_time a + usec_per_hour \<and>
          appt_doctor_id a = doctor_id))"
proof (intro conjI impI)
  assume "user_is_doctor current_user"
  then show "create_appointment d current_user doctor_id start_time =
        (Inl (HTTPException 403 ''Doctors cannot create appointments''), d)"
    by (simp add: create_appointment_def)
next
  let ?n = "\<lparr>appt_id = next_id (map appt_id (appointments d)),
             appt_doctor_id = doctor_id,
             appt_patient_id = user_id current_user,
             appt_start_time = start_time,
             appt_end_time = start_time + usec_per_hour,
             appt_status = SCHEDULED,
             appt_qr_code = None\<rparr>"
  have id: "appt_id ?n = next_id (map appt_id (appointments d))" by simp
  note new = old_rows_untouched find_new_row [OF id]
  show "appointments (snd (create_appointment d current_user doctor_id start_time)) =
      appointments d \<or>
    (\<exists>a. appointments (snd (create_appointment d current_user doctor_id start_time)) =
            appointments d @ [a] \<and>
          appt_patient_id a = user_id current_user \<and>
          appt_status a = SCHEDULED \<and>
          appt_start_time a = start_time \<and>
          appt_end_time a = appt_start_time a + usec_per_hour \<and>
          appt_doctor_id a = doctor_id)"
    by (simp add: create_appointment_def Let_def generate_qr_code_def update_row_def new
             split: sum.splits bool.splits option.splits)
qed


theorem create_appointment_forbidden_for_doctors_and_row_created_witness:
  "user_is_doctor dr_who \<and>
   is_time_slot_available db_null_break 7 (combine monday (hm 9 0))
     (combine monday (hm 9 0) + usec_per_hour) = Inl TypeError \<and>
   create_appointment db_null_break dr_who 7 (combine monday (hm 9 0)) =
     (Inl (HTTPException 403 ''Doctors cannot create appointments''), db_null_break) \<and>
   map (\<lambda>a. (appt_patient_id a, appt_status a, appt_start_time a, appt_end_time a))
       (appointments (snd (create_appointment db_plain pat 7 (combine monday (hm 9 0))))) =
     [(user_id pat, SCHEDULED, combine monday (hm 9 0), combine monday (hm 10 0))]"
proof -
  have u: "user_is_doctor dr_who" by (simp add: example_defs)
  have t: "is_time_slot_available db_null_break 7 (combine monday (hm 9 0))
     (combine monday (hm 9 0) + usec_per_hour) = Inl TypeError"
    by code_simp
  have f: "create_appointment db_null_break dr_who 7 (combine monday (hm 9 0)) =
     (Inl (HTTPException 403 ''Doctors cannot create appointments''), db_null_break)"
    using create_appointment_forbidden_for_doctors_and_row_created
            [of dr_who db_null_break 7 "combine monday (hm 9 0)"] u
    by blast
  have c: "map (\<lambda>a. (appt_patient_id a, appt_status a, appt_start_time a, appt_end_time a))
       (appointments (snd (create_appointment db_plain pat 7 (combine monday (hm 9 0))))) =
     [(user_id pat, SCHEDULED, combine monday (hm 9 0), combine monday (hm 10 0))]"
    by code_simp
  show ?thesis
    by (intro conjI) (fact u t f c)+
qed

section \<open>How a rejected booking is reported\<close>

text \<open>
  C9, as stated, fails: a booking on a weekday without working hours, a booking that
  overlaps an appointment, one outside the working window and one inside the break
  all get the same response, status 400 with the detail
  \<open>Time slot is not available\<close>, which is not \<open>no availability\<close>.
\<close>

theorem create_appointment_one_rejection_detail_counterexample:
  "working_hours_query db_no_hours 7 (weekday monday) = None \<and>
   create_appointment db_no_hours pat 7 (combine monday (hm 9 0)) =
     (Inl (HTTPException 400 ''Time slot is not available''), db_no_hours) \<and>
   find (overlap_filter 7 (combine monday (hm 10 0)) (combine monday (hm 11 0)))
     (appointments db_booked) = Some booked_10 \<and>
   create_appointment db_booked pat 7 (combine monday (hm 10 0)) =
     (Inl (HTTPException 400 ''Time slot is not available''), db_booked) \<and>
   wh_end_time nine_to_five < hm 18 0 \<and>
   create_appointment db_plain pat 7 (combine monday (hm 18 0)) =
     (Inl (HTTPException 400 ''Time slot is not available''), db_plain) \<and>
   in_break lunch_break (hm 12 0) (hm 13 0) = Inr True \<and>
   create_appointment db_lunch pat 7 (combine monday (hm 12 0)) =
     (Inl (HTTPException 400 ''Time slot is not available''), db_lunch) \<and>
   ''Time slot is not available'' \<noteq> ''no availability''"
  by code_simp

text \<open>
  C9, amended. Every rejection by \<open>is_time_slot_available\<close> reaches a caller who is not
  a doctor as status 400 with the one detail \<open>Time slot is not available\<close>, and the
  database is unchanged; the check rejects when an appointment passes the overlap
  filter, when the weekday has no available working-hours row, when the interval
  leaves the working window, and when the break test finds it in the break.
\<close>

theorem create_appointment_rejection_detail:
  "(\<not> user_is_doctor current_user \<and>
    is_time_slot_available d doctor_id start_time (start_time + usec_per_hour) = Inr False \<longrightarrow>
      create_appointment d current_user doctor_id start_time =
        (Inl (HTTPException 400 ''Time slot is not available''), d)) \<and>
   (find (overlap_filter doctor_id start_time end_time) (appointments d) \<noteq> None \<longrightarrow>
      is_time_slot_available d doctor_id start_time end_time = Inr False) \<and>
   (working_hours_query d doctor_id (weekday (date_of start_time)) = None \<longrightarrow>
      is_time_slot_available d doctor_id start_time end_time = Inr False) \<and>
   (\<forall>w. working_hours_query d doctor_id (weekday (date_of start_time)) = Some w \<and>
        (time_of start_time < wh_start_time w \<or> time_of end_time > wh_end_time w) \<longrightarrow>
      is_time_slot_available d doctor_id start_time end_time = Inr False) \<and>
   (\<forall>w. working_hours_query d doctor_id (weekday (date_of start_time)) = Some w \<and>
        wh_has_break w \<and>
        in_break w (time_of start_time) (time_of end_time) = Inr True \<longrightarrow>
      is_time_slot_available d doctor_id start_time end_time = Inr False)"
  by (auto simp: create_appointment_def is_time_slot_available_def Let_def
           split: option.splits)

theorem create_appointment_rejection_detail_witness:
  "\<not> user_is_doctor pat \<and>
   working_hours_query db_no_hours 7 (weekday (date_of (combine monday (hm 9 0)))) = None \<and>
   is_time_slot_available db_no_hours 7 (combine monday (hm 9 0))
     (combine monday (hm 9 0) + usec_per_hour) = Inr False \<and>
   create_appointment db_no_hours pat 7 (combine monday (hm 9 0)) =
     (Inl (HTTPException 400 ''Time slot is not available''), db_no_hours)"
proof -
  have u: "\<not> user_is_doctor pat" by (simp add: example_defs)
  have q: "working_hours_query db_no_hours 7 (weekday (date_of (combine monday (hm 9 0)))) = None"
    by (simp add: working_hours_query_def example_defs)
  have r: "is_time_slot_available db_no_hours 7 (combine monday (hm 9 0))
     (combine monday (hm 9 0) + usec_per_hour) = Inr False"
    using create_appointment_rejection_detail
            [of pat db_no_hours 7 "combine monday (hm 9 0)" "combine monday (hm 9 0) + usec_per_hour"] q
    by blast
  have c: "create_appointment db_no_hours pat 7 (combine monday (hm 9 0)) =
     (Inl (HTTPException 400 ''Time slot is not available''), db_no_hours)"
    using create_appointment_rejection_detail
            [of pat db_no_hours 7 "combine monday (hm 9 0)" "combine monday (hm 9 0) + usec_per_hour"] u r
    by blast
  show ?thesis
    by (intro conjI) (fact u q r c)+
qed


section \<open>The reminder tick\<close>

text \<open>
  C7. When every appointment refers to an existing doctor (the foreign key of the
  schema), a tick ends without an exception, leaves the appointments table as it was,
  keeps the notifications there were and appends one notification titled
  \<open>Appointment Reminder\<close> for each appointment, in table order, whose status is
  scheduled and whose start is after the clock reading \<open>now2\<close> and at most 24 hours
  after the clock reading \<open>now1\<close>; for one current time both readings are that time.
\<close>

theorem check_upcoming_appointments_reminds_each_once:
  "(\<forall>a \<in> set (appointments d). appointment_doctor d a \<noteq> None) \<longrightarrow>
   fst (check_upcoming_appointments now1 now2 d) = Inr () \<and>
   appointments (snd (check_upcoming_appointments now1 now2 d)) = appointments d \<and>
   take (length (notifications d))
     (notifications (snd (check_upcoming_appointments now1 now2 d))) = notifications d \<and>
   map ntf_appointment_id
     (drop (length (notifications d))
        (notifications (snd (check_upcoming_appointments now1 now2 d)))) =
     map (\<lambda>a. Some (appt_id a))
       (filter (\<lambda>a. appt_status a = SCHEDULED \<and> now2 < appt_start_time a \<and>
                    appt_start_time a \<le> now1 + 24 * usec_per_hour)
          (appointments d)) \<and>
   list_all (\<lambda>n. ntf_title n = ''Appointment Reminder'')
     (drop (length (notifications d))
        (notifications (snd (check_upcoming_appointments now1 now2 d))))"
proof
  assume fk: "\<forall>a \<in> set (appointments d). appointment_doctor d a \<noteq> None"
  let ?sel = "filter (upcoming now1 now2) (appointments d)"
  have "\<forall>a \<in> set ?sel. appointment_doctor d a \<noteq> None"
    using fk by simp
  from remind_each_result [OF this] obtain new where new:
    "remind_each d ?sel = (Inr (), d\<lparr>notifications := notifications d @ new\<rparr>)"
    "map ntf_appointment_id new = map (\<lambda>a. Some (appt_id a)) ?sel"
    "\<forall>n \<in> set new. ntf_title n = ''Appointment Reminder''"
    by blast
  have day: "24 * usec_per_hour = usec_per_day"
    by (simp add: usec_per_hour_def usec_per_day_def)
  have sel: "?sel = filter (\<lambda>a. appt_status a = SCHEDULED \<and> now2 < appt_start_time a \<and>
                    appt_start_time a \<le> now1 + 24 * usec_per_hour) (appointments d)"
    unfolding day by (rule filter_cong) (auto simp: upcoming_def)
  show "fst (check_upcoming_appointments now1 now2 d) = Inr () \<and>
   appointments (snd (check_upcoming_appointments now1 now2 d)) = appointments d \<and>
   take (length (notifications d))
     (notifications (snd (check_upcoming_appointments now1 now2 d))) = notifications d \<and>
   map ntf_appointment_id
     (drop (length (notifications d))
        (notifications (snd (check_upcoming_appointments now1 now2 d)))) =
     map (\<lambda>a. Some (appt_id a))
       (filter (\<lambda>a. appt_status a = SCHEDULED \<and> now2 < appt_start_time a \<and>
                    appt_start_time a \<le> now1 + 24 * usec_per_hour)
          (appointments d)) \<and>
   list_all (\<lambda>n. ntf_title n = ''Appointment Reminder'')
     (drop (length (notifications d))
        (notifications (snd (check_upcoming_appointments now1 now2 d))))"
    unfolding sel [symmetric]
    using new by (simp add: check_upcoming_appointments_def list_all_iff)
qed

theorem check_upcoming_appointments_reminds_each_once_witness:
  "list_all (\<lambda>a. appointment_doctor db_upcoming a \<noteq> None) (appointments db_upcoming) \<and>
   map (\<lambda>a. (appt_id a, appt_start_time a - now_8am, appt_status a)) (appointments db_upcoming) =
     [(1, 23 * usec_per_hour, SCHEDULED), (2, 25 * usec_per_hour, SCHEDULED),
      (3, 23 * usec_per_hour, CANCELLED)] \<and>
   notifications db_upcoming = [] \<and>
   fst (check_upcoming_appointments now_8am now_8am db_upcoming) = Inr () \<and>
   appointments (snd (check_upcoming_appointments now_8am now_8am db_upcoming)) =
     appointments db_upcoming \<and>
   map ntf_appointment_id
     (notifications (snd (check_upcoming_appointments now_8am now_8am db_upcoming))) = [Some 1]"
proof -
  have fk: "list_all (\<lambda>a. appointment_doctor db_upcoming a \<noteq> None) (appointments db_upcoming)"
    by code_simp
  have ap: "map (\<lambda>a. (appt_id a, appt_start_time a - now_8am, appt_status a)) (appointments db_upcoming) =
     [(1, 23 * usec_per_hour, SCHEDULED), (2, 25 * usec_per_hour, SCHEDULED),
      (3, 23 * usec_per_hour, CANCELLED)]"
    by (simp add: example_defs)
  have nn: "notifications db_upcoming = []"
    by (simp add: example_defs)
  have sel: "map (\<lambda>a. Some (appt_id a))
       (filter (\<lambda>a. appt_status a = SCHEDULED \<and> now_8am < appt_start_time a \<and>
                    appt_start_time a \<le> now_8am + 24 * usec_per_hour)
          (appointments db_upcoming)) = [Some 1]"
    by (simp add: example_defs time_defs)
  note T = check_upcoming_appointments_reminds_each_once [of db_upcoming now_8am now_8am]
  have a: "fst (check_upcoming_appointments now_8am now_8am db_upcoming) = Inr ()"
    using T fk unfolding list_all_iff by blast
  have b: "appointments (snd (check_upcoming_appointments now_8am now_8am db_upcoming)) =
     appointments db_upcoming"
    using T fk unfolding list_all_iff by blast
  have c: "map ntf_appointment_id
     (notifications (snd (check_upcoming_appointments now_8am now_8am db_upcoming))) = [Some 1]"
    using T fk sel nn unfolding list_all_iff by simp
  show ?thesis
    by (intro conjI) (fact fk ap nn a b c)+
qed

section \<open>Appointment against appointment\<close>

text \<open>
  C3. For an existing appointment and a proposed interval that are both non-empty,
  the overlap filter of \<open>is_time_slot_available\<close> selects the appointment exactly when
  it belongs to the doctor, is not cancelled and overlaps the proposal in the
  half-open sense. The decision of the check follows that test: when some
  non-cancelled appointment of the doctor overlaps the proposal in the half-open
  sense, in part or in whole, the check returns false; when none does, the check
  returns what it returns on an empty appointments table. In particular an
  appointment that abuts the proposal (it ends where the proposal starts, or starts
  where the proposal ends) does not change the decision, at any position in the
  table, and a non-cancelled appointment of the doctor identical to the proposal
  makes the check return false.
\<close>

theorem appointment_overlap_is_half_open:
  "(appt_start_time a < appt_end_time a \<and> start_time < end_time \<longrightarrow>
      overlap_filter doctor_id start_time end_time a =
        (appt_doctor_id a = doctor_id \<and> appt_status a \<noteq> CANCELLED \<and>
         appt_start_time a < end_time \<and> start_time < appt_end_time a)) \<and>
   (a \<in> set (appointments d) \<and> appt_doctor_id a = doctor_id \<and>
    appt_status a \<noteq> CANCELLED \<and>
    appt_start_time a < appt_end_time a \<and> start_time < end_time \<and>
    appt_start_time a < end_time \<and> start_time < appt_end_time a \<longrightarrow>
      is_time_slot_available d doctor_id start_time end_time = Inr False) \<and>
   (start_time < end_time \<and>
    (\<forall>b \<in> set (appointments d).
       appt_doctor_id b = doctor_id \<and> appt_status b \<noteq> CANCELLED \<longrightarrow>
       appt_start_time b < appt_end_time b \<and>
       \<not> (appt_start_time b < end_time \<and> start_time < appt_end_time b)) \<longrightarrow>
      is_time_slot_available d doctor_id start_time end_time =
      is_time_slot_available (d\<lparr>appointments := []\<rparr>) doctor_id start_time end_time) \<and>
   (appt_start_time a < appt_end_time a \<and> start_time < end_time \<and>
    (appt_end_time a = start_time \<or> appt_start_time a = end_time) \<longrightarrow>
      is_time_slot_available (d\<lparr>appointments := xs @ a # ys\<rparr>) doctor_id start_time end_time =
      is_time_slot_available (d\<lparr>appointments := xs @ ys\<rparr>) doctor_id start_time end_time) \<and>
   (a \<in> set (appointments d) \<and> appt_doctor_id a = doctor_id \<and>
    appt_status a \<noteq> CANCELLED \<and>
    appt_start_time a = start_time \<and> appt_end_time a = end_time \<longrightarrow>
      is_time_slot_available d doctor_id start_time end_time = Inr False)"
proof (intro conjI impI)
  assume "appt_start_time a < appt_end_time a \<and> start_time < end_time"
  then show "overlap_filter doctor_id start_time end_time a =
        (appt_doctor_id a = doctor_id \<and> appt_status a \<noteq> CANCELLED \<and>
         appt_start_time a < end_time \<and> start_time < appt_end_time a)"
    by (simp add: overlap_filter_half_open)
next
  assume h: "a \<in> set (appointments d) \<and> appt_doctor_id a = doctor_id \<and>
    appt_status a \<noteq> CANCELLED \<and>
    appt_start_time a < appt_end_time a \<and> start_time < end_time \<and>
    appt_start_time a < end_time \<and> start_time < appt_end_time a"
  then have "overlap_filter doctor_id start_time end_time a"
    by (simp add: overlap_filter_half_open)
  with h have "find (overlap_filter doctor_id start_time end_time) (appointments d) \<noteq> None"
    by (auto simp: find_None_iff)
  then show "is_time_slot_available d doctor_id start_time end_time = Inr False"
    by (auto simp: is_time_slot_available_def)
next
  assume h: "start_time < end_time \<and>
    (\<forall>b \<in> set (appointments d).
       appt_doctor_id b = doctor_id \<and> appt_status b \<noteq> CANCELLED \<longrightarrow>
       appt_start_time b < appt_end_time b \<and>
       \<not> (appt_start_time b < end_time \<and> start_time < appt_end_time b))"
  have "\<not> overlap_filter doctor_id start_time end_time b" if b: "b \<in> set (appointments d)" for b
  proof (cases "appt_doctor_id b = doctor_id \<and> appt_status b \<noteq> CANCELLED")
    case False
    then show ?thesis by (auto simp: overlap_filter_def)
  next
    case True
    with h b have "appt_start_time b < appt_end_time b"
      "\<not> (appt_start_time b < end_time \<and> start_time < appt_end_time b)"
      by blast+
    then show ?thesis
      using h by (simp add: overlap_filter_half_open)
  qed
  then show "is_time_slot_available d doctor_id start_time end_time =
      is_time_slot_available (d\<lparr>appointments := []\<rparr>) doctor_id start_time end_time"
    by (intro admission_depends_on_matches) auto
next
  assume h: "appt_start_time a < appt_end_time a \<and> start_time < end_time \<and>
    (appt_end_time a = start_time \<or> appt_start_time a = end_time)"
  then have "\<not> overlap_filter doctor_id start_time end_time a"
    by (auto simp: overlap_filter_half_open)
  then show "is_time_slot_available (d\<lparr>appointments := xs @ a # ys\<rparr>) doctor_id start_time end_time =
      is_time_slot_available (d\<lparr>appointments := xs @ ys\<rparr>) doctor_id start_time end_time"
    by (intro admission_depends_on_matches) auto
next
  assume h: "a \<in> set (appointments d) \<and> appt_doctor_id a = doctor_id \<and>
    appt_status a \<noteq> CANCELLED \<and>
    appt_start_time a = start_time \<and> appt_end_time a = end_time"
  then have "overlap_filter doctor_id start_time end_time a"
    unfolding overlap_filter_def by auto
  with h have "find (overlap_filter doctor_id start_time end_time) (appointments d) \<noteq> None"
    by (auto simp: find_None_iff)
  then show "is_time_slot_available d doctor_id start_time end_time = Inr False"
    by (auto simp: is_time_slot_available_def)
qed


theorem appointment_overlap_is_half_open_witness:
  "appt_start_time booked_10 < appt_end_time booked_10 \<and>
   combine monday (hm 9 0) < combine monday (hm 10 0) \<and>
   appt_start_time booked_10 = combine monday (hm 10 0) \<and>
   appt_end_time booked_10 = combine monday (hm 11 0) \<and>
   appt_doctor_id booked_10 = 7 \<and> appt_status booked_10 \<noteq> CANCELLED \<and>
   appointments db_booked = [booked_10] \<and>
   \<not> overlap_filter 7 (combine monday (hm 9 0)) (combine monday (hm 10 0)) booked_10 \<and>
   \<not> overlap_filter 7 (combine monday (hm 11 0)) (combine monday (hm 12 0)) booked_10 \<and>
   is_time_slot_available db_booked 7 (combine monday (hm 9 0)) (combine monday (hm 10 0)) =
     Inr True \<and>
   is_time_slot_available db_booked 7 (combine monday (hm 11 0)) (combine monday (hm 12 0)) =
     Inr True \<and>
   is_time_slot_available db_booked 7 (combine monday (hm 10 0)) (combine monday (hm 11 0)) =
     Inr False \<and>
   is_time_slot_available db_booked 7 (combine monday (hm 10 30)) (combine monday (hm 11 30)) =
     Inr False \<and>
   is_time_slot_available db_booked 7 (combine monday (hm 9 30)) (combine monday (hm 10 30)) =
     Inr False \<and>
   is_time_slot_available db_booked 7 (combine monday (hm 13 0)) (combine monday (hm 14 0)) =
     is_time_slot_available (db_booked\<lparr>appointments := []\<rparr>) 7
       (combine monday (hm 13 0)) (combine monday (hm 14 0)) \<and>
   is_time_slot_available db_booked 7 (combine monday (hm 13 0)) (combine monday (hm 14 0)) =
     Inr True \<and>
   is_time_slot_available db_plain 7 (combine monday (hm 9 0)) (combine monday (hm 10 0)) =
     Inr True \<and>
   is_time_slot_available (snd (create_appointment db_plain pat 7 (combine monday (hm 9 0)))) 7
     (combine monday (hm 9 0)) (combine monday (hm 10 0)) = Inr False"
proof -
  have a: "appt_start_time booked_10 < appt_end_time booked_10"
    "combine monday (hm 9 0) < combine monday (hm 10 0)"
    "appt_start_time booked_10 = combine monday (hm 10 0)"
    "appt_end_time booked_10 = combine monday (hm 11 0)"
    "appt_doctor_id booked_10 = 7" "appt_status booked_10 \<noteq> CANCELLED"
    "appointments db_booked = [booked_10]"
    by (simp_all add: example_defs time_defs)
  have o: "combine monday (hm 11 0) < combine monday (hm 12 0)"
    "combine monday (hm 10 30) < combine monday (hm 11 30)"
    "combine monday (hm 9 30) < combine monday (hm 10 30)"
    "combine monday (hm 13 0) < combine monday (hm 14 0)"
    "combine monday (hm 10 0) < combine monday (hm 11 30)"
    "combine monday (hm 10 30) < combine monday (hm 11 0)"
    "combine monday (hm 10 0) < combine monday (hm 10 30)"
    "combine monday (hm 9 30) < combine monday (hm 11 0)"
    "\<not> combine monday (hm 10 0) < combine monday (hm 9 0)"
    "\<not> combine monday (hm 13 0) < combine monday (hm 11 0)"
    by (simp_all add: example_defs time_defs)
  have b: "db_booked = db_plain\<lparr>appointments := [] @ booked_10 # []\<rparr>"
          "db_plain = db_plain\<lparr>appointments := [] @ []\<rparr>"
    by (simp_all add: example_defs)
  have p: "is_time_slot_available db_plain 7 (combine monday (hm 9 0)) (combine monday (hm 10 0)) =
     Inr True"
    "is_time_slot_available db_plain 7 (combine monday (hm 11 0)) (combine monday (hm 12 0)) =
     Inr True"
    by code_simp+
  note T1 = appointment_overlap_is_half_open
      [where a = booked_10 and start_time = "combine monday (hm 9 0)"
         and end_time = "combine monday (hm 10 0)" and doctor_id = 7 and d = db_plain
         and xs = "[]" and ys = "[]"]
  note T2 = appointment_overlap_is_half_open
      [where a = booked_10 and start_time = "combine monday (hm 11 0)"
         and end_time = "combine monday (hm 12 0)" and doctor_id = 7 and d = db_plain
         and xs = "[]" and ys = "[]"]
  note T3 = appointment_overlap_is_half_open
      [where a = booked_10 and start_time = "combine monday (hm 10 0)"
         and end_time = "combine monday (hm 11 0)" and doctor_id = 7 and d = db_booked]
  note T4 = appointment_overlap_is_half_open
      [where a = booked_10 and start_time = "combine monday (hm 10 30)"
         and end_time = "combine monday (hm 11 30)" and doctor_id = 7 and d = db_booked]
  note T5 = appointment_overlap_is_half_open
      [where a = booked_10 and start_time = "combine monday (hm 9 30)"
         and end_time = "combine monday (hm 10 30)" and doctor_id = 7 and d = db_booked]
  note T6 = appointment_overlap_is_half_open
      [where a = booked_10 and start_time = "combine monday (hm 13 0)"
         and end_time = "combine monday (hm 14 0)" and doctor_id = 7 and d = db_booked]
  have n1: "\<not> overlap_filter 7 (combine monday (hm 9 0)) (combine monday (hm 10 0)) booked_10"
    using T1 a by simp
  have n2: "\<not> overlap_filter 7 (combine monday (hm 11 0)) (combine monday (hm 12 0)) booked_10"
    using T2 a o by simp
  have r1: "is_time_slot_available db_booked 7 (combine monday (hm 9 0)) (combine monday (hm 10 0)) =
     Inr True"
    using T1 a p unfolding b [symmetric] by simp
  have r2: "is_time_slot_available db_booked 7 (combine monday (hm 11 0)) (combine monday (hm 12 0)) =
     Inr True"
    using T2 a o p unfolding b [symmetric] by simp
  have r3: "is_time_slot_available db_booked 7 (combine monday (hm 10 0)) (combine monday (hm 11 0)) =
     Inr False"
    using T3 a by simp
  have r4: "is_time_slot_available db_booked 7 (combine monday (hm 10 30)) (combine monday (hm 11 30)) =
     Inr False"
    using T4 a o by simp
  have r5: "is_time_slot_available db_booked 7 (combine monday (hm 9 30)) (combine monday (hm 10 30)) =
     Inr False"
    using T5 a o by simp
  have r6: "is_time_slot_available db_booked 7 (combine monday (hm 13 0)) (combine monday (hm 14 0)) =
     is_time_slot_available (db_booked\<lparr>appointments := []\<rparr>) 7
       (combine monday (hm 13 0)) (combine monday (hm 14 0))"
    using T6 a o by simp
  have r7: "is_time_slot_available db_booked 7 (combine monday (hm 13 0)) (combine monday (hm 14 0)) =
     Inr True"
    by code_simp
  have r8: "is_time_slot_available (snd (create_appointment db_plain pat 7 (combine monday (hm 9 0)))) 7
     (combine monday (hm 9 0)) (combine monday (hm 10 0)) = Inr False"
    by code_simp
  show ?thesis
    by (intro conjI) (fact a n1 n2 r1 r2 r3 r4 r5 r6 r7 p r8)+
qed

section \<open>Admission and slot membership\<close>





end
